theory Spec2Isabelle
  imports Complex_Main "HOL-Library.Word"
begin

section \<open>Data model\<close>

text \<open>
  JavaScript numbers are modelled as reals: rounding, NaN and the infinities of IEEE
  doubles are not part of the model. Every \<^verbatim>\<open>Math.random()\<close> draw, every clock
  reading and every random identifier is an explicit argument of the function that
  makes it, so that a function of the model is a function of its inputs and its draws.
\<close>

text \<open>\<^verbatim>\<open>src/dex/mockDexRouter.ts\<close>: the source tag \<^verbatim>\<open>'raydium' | 'meteora'\<close>.\<close>

datatype dex = Raydium | Meteora

text \<open>\<^verbatim>\<open>interface Quote { price: number; fee: number; dex: ... }\<close>\<close>

record quote =
  price :: real
  fee :: real
  dex :: dex

text \<open>\<^verbatim>\<open>interface SwapResult { txHash: string; executedPrice: number }\<close>\<close>

record swap_result =
  txHash :: string
  executedPrice :: real

text \<open>\<^verbatim>\<open>interface OrderRequest\<close> of the models file.\<close>

record order_request =
  otype :: string
  tokenIn :: string
  tokenOut :: string
  amountIn :: real
  slippage :: "real option"

text \<open>
  A thrown value. Every throw site that \<^verbatim>\<open>processOrder\<close> can reach raises an
  \<^verbatim>\<open>Error\<close> object (the database driver, a \<^verbatim>\<open>TypeError\<close>, the test doubles), so
  a thrown value is an object with a \<^verbatim>\<open>name\<close> and a \<^verbatim>\<open>message\<close>.
\<close>

datatype js_error = JsError (err_name: string) (message: string)

text \<open>\<^verbatim>\<open>Error.prototype.toString\<close>, which \<^verbatim>\<open>String(err)\<close> calls.\<close>

definition toString :: "js_error \<Rightarrow> string" where
  "toString err =
     (if err_name err = [] then message err
      else if message err = [] then err_name err
      else err_name err @ '': '' @ message err)"

text \<open>The status tags of the lifecycle.\<close>

datatype status = Pending | Routing | Building | Submitted | Confirmed | Failed

text \<open>
  The payload objects handed to \<^verbatim>\<open>emitFn\<close>:
  \<^verbatim>\<open>{ status }\<close>,
  \<^verbatim>\<open>{ status: 'routing', chosen, price }\<close>,
  \<^verbatim>\<open>{ status: 'confirmed', txHash, executedPrice }\<close> and
  \<^verbatim>\<open>{ status: 'failed', error }\<close>.
\<close>

datatype payload =
  StatusOnly status
| RoutingChosen dex real
| ConfirmedWith string real
| FailedWith string

fun status_of :: "payload \<Rightarrow> status" where
  "status_of (StatusOnly s) = s"
| "status_of (RoutingChosen d p) = Routing"
| "status_of (ConfirmedWith h p) = Confirmed"
| "status_of (FailedWith r) = Failed"

fun has_chosen :: "payload \<Rightarrow> bool" where
  "has_chosen (RoutingChosen d p) = True"
| "has_chosen _ = False"

text \<open>What a subscriber tells apart: the status tag, and whether a source was chosen.\<close>

definition label :: "payload \<Rightarrow> status \<times> bool" where
  "label p = (status_of p, has_chosen p)"

section \<open>The mock router (\<^verbatim>\<open>src/dex/mockDexRouter.ts\<close>)\<close>

definition basePrice :: real where
  "basePrice = 100"

text \<open>
  \<^verbatim>\<open>const price = this.basePrice * (0.98 + Math.random() * 0.04)\<close>; the argument
  \<open>u\<close> is the draw. The simulated delay is not modelled.
\<close>

definition getRaydiumQuote :: "string \<Rightarrow> string \<Rightarrow> real \<Rightarrow> real \<Rightarrow> quote" where
  "getRaydiumQuote tokIn tokOut amount u =
     \<lparr>price = basePrice * (0.98 + u * 0.04), fee = 0.003, dex = Raydium\<rparr>"

definition getMeteoraQuote :: "string \<Rightarrow> string \<Rightarrow> real \<Rightarrow> real \<Rightarrow> quote" where
  "getMeteoraQuote tokIn tokOut amount u =
     \<lparr>price = basePrice * (0.97 + u * 0.05), fee = 0.002, dex = Meteora\<rparr>"

text \<open>
  \<^verbatim>\<open>executeSwap(dex, _order)\<close>: \<open>uuid\<close> is the string that \<^verbatim>\<open>uuidv4()\<close> of the
  external package returns, \<open>u\<close> the draw.
\<close>

definition executeSwap :: "dex \<Rightarrow> order_request \<Rightarrow> string \<Rightarrow> real \<Rightarrow> swap_result" where
  "executeSwap d ord uuid u =
     \<lparr>txHash = uuid,
      executedPrice =
        basePrice * (if d = Raydium then 1.0 else 0.995) * (1 + (u - 0.5) * 0.01)\<rparr>"

text \<open>The comparator of \<^verbatim>\<open>processOrder\<close>: \<^verbatim>\<open>r.price <= m.price ? r : m\<close>.\<close>

definition chosen :: "quote \<Rightarrow> quote \<Rightarrow> quote" where
  "chosen r m = (if price r \<le> price m then r else m)"

section \<open>The lifecycle engine (\<^verbatim>\<open>processOrder\<close> of the order worker)\<close>

text \<open>
  The collaborators of one run, as their outcomes: each quote source and the execution
  simulator either resolve with a value or reject with an error (the tests replace them
  by doubles that do either); \<open>db s\<close> is the outcome of
  \<^verbatim>\<open>updateOrderStatus(orderId, s, ...)\<close>, \<open>None\<close> when the write resolves. Each status
  is written at most once in a run. \<open>meteoraFirst\<close> says which rejection settles
  \<^verbatim>\<open>Promise.all\<close> when both quote calls reject.
\<close>

record collaborators =
  raydiumQuote :: "string \<Rightarrow> string \<Rightarrow> real \<Rightarrow> js_error + quote"
  meteoraQuote :: "string \<Rightarrow> string \<Rightarrow> real \<Rightarrow> js_error + quote"
  meteoraFirst :: bool
  swap :: "dex \<Rightarrow> order_request \<Rightarrow> js_error + swap_result"
  db :: "status \<Rightarrow> js_error option"

text \<open>\<^verbatim>\<open>Promise.all([a, b])\<close>: both values, or the rejection that comes first.\<close>

definition promise_all2 :: "bool \<Rightarrow> js_error + 'a \<Rightarrow> js_error + 'b \<Rightarrow> js_error + 'a \<times> 'b" where
  "promise_all2 second_first a b =
     (case a of
        Inr x \<Rightarrow> (case b of Inr y \<Rightarrow> Inr (x, y) | Inl e \<Rightarrow> Inl e)
      | Inl e \<Rightarrow> (case b of Inr y \<Rightarrow> Inl e | Inl e' \<Rightarrow> Inl (if second_first then e' else e)))"

text \<open>\<^verbatim>\<open>const reason = err?.message || String(err)\<close>\<close>

definition reason_of :: "js_error \<Rightarrow> string" where
  "reason_of err = (if message err \<noteq> [] then message err else toString err)"

text \<open>
  The \<^verbatim>\<open>try\<close> block. The result is the list of payloads passed to \<^verbatim>\<open>emitFn\<close> so
  far, in call order, and either the value returned or the error that left the block.
  \<^verbatim>\<open>emitFn\<close> records the payload and does not throw (\<^verbatim>\<open>defaultEmit\<close> hands it to a
  sender that catches its own errors).
\<close>

definition try_block :: "collaborators \<Rightarrow> order_request \<Rightarrow> payload list \<times> (js_error + string)" where
  "try_block c data =
    (let evs1 = [StatusOnly Pending] in
     (case db c Pending of Some e \<Rightarrow> (evs1, Inl e) | None \<Rightarrow>
     (let evs2 = evs1 @ [StatusOnly Routing] in
     (case promise_all2 (meteoraFirst c)
            (raydiumQuote c (tokenIn data) (tokenOut data) (amountIn data))
            (meteoraQuote c (tokenIn data) (tokenOut data) (amountIn data)) of
       Inl e \<Rightarrow> (evs2, Inl e)
     | Inr (r, m) \<Rightarrow>
     (let ch = chosen r m;
          evs3 = evs2 @ [RoutingChosen (dex ch) (price ch)] in
     (case db c Routing of Some e \<Rightarrow> (evs3, Inl e) | None \<Rightarrow>
     (let evs4 = evs3 @ [StatusOnly Building] in
     (case db c Building of Some e \<Rightarrow> (evs4, Inl e) | None \<Rightarrow>
     (let evs5 = evs4 @ [StatusOnly Submitted] in
     (case swap c (dex ch) data of Inl e \<Rightarrow> (evs5, Inl e) | Inr exec \<Rightarrow>
     (case db c Submitted of Some e \<Rightarrow> (evs5, Inl e) | None \<Rightarrow>
     (let evs6 = evs5 @ [ConfirmedWith (txHash exec) (executedPrice exec)] in
     (case db c Confirmed of Some e \<Rightarrow> (evs6, Inl e) | None \<Rightarrow>
     (evs6, Inr (txHash exec)))))))))))))))"

text \<open>
  \<^verbatim>\<open>processOrder\<close>: the \<^verbatim>\<open>try\<close> block and its \<^verbatim>\<open>catch\<close>, which emits
  \<^verbatim>\<open>failed\<close>, awaits the write of \<^verbatim>\<open>failed\<close> and rethrows.
\<close>

definition processOrder :: "collaborators \<Rightarrow> order_request \<Rightarrow> payload list \<times> (js_error + string)" where
  "processOrder c data =
    (case try_block c data of
       (evs, Inr tx) \<Rightarrow> (evs, Inr tx)
     | (evs, Inl err) \<Rightarrow>
         (evs @ [FailedWith (reason_of err)],
          (case db c Failed of Some e \<Rightarrow> Inl e | None \<Rightarrow> Inl err)))"

text \<open>The router of the repository as a collaborator, with its draws fixed.\<close>

definition mockDex :: "real \<Rightarrow> real \<Rightarrow> string \<Rightarrow> real \<Rightarrow> (status \<Rightarrow> js_error option) \<Rightarrow> collaborators" where
  "mockDex ur um uuid ux dbo =
     \<lparr>raydiumQuote = (\<lambda>a b n. Inr (getRaydiumQuote a b n ur)),
      meteoraQuote = (\<lambda>a b n. Inr (getMeteoraQuote a b n um)),
      meteoraFirst = False,
      swap = (\<lambda>d ord. Inr (executeSwap d ord uuid ux)),
      db = dbo\<rparr>"

text \<open>
  The test doubles of the lifecycle tests: \<^verbatim>\<open>jest.spyOn(...).mockImplementation\<close>
  makes each quote source resolve with a fixed quote, whatever its arguments.
\<close>

definition withQuotes :: "quote \<Rightarrow> quote \<Rightarrow> collaborators \<Rightarrow> collaborators" where
  "withQuotes r m c =
     c\<lparr>raydiumQuote := (\<lambda>a b n. Inr r), meteoraQuote := (\<lambda>a b n. Inr m)\<rparr>"

text \<open>The mocked database module of the tests: every write resolves.\<close>

definition dbOk :: "status \<Rightarrow> js_error option" where
  "dbOk s = None"

text \<open>The order of the lifecycle tests and of end-to-end scenario A.\<close>

definition dummyOrder :: order_request where
  "dummyOrder =
     \<lparr>otype = ''market'', tokenIn = ''SOL'', tokenOut = ''USDC'', amountIn = 100,
      slippage = None\<rparr>"

text \<open>
  \<^verbatim>\<open>jest.spyOn(..., 'executeSwap').mockImplementation(async () => { throw ... })\<close>:
  the execution simulator rejects with a fixed error.
\<close>

definition withSwapFailure :: "js_error \<Rightarrow> collaborators \<Rightarrow> collaborators" where
  "withSwapFailure err c = c\<lparr>swap := (\<lambda>d ord. Inl err)\<rparr>"

text \<open>What the database driver raises when the server cannot be reached.\<close>

definition dbDown :: js_error where
  "dbDown = JsError ''Error'' ''connect ECONNREFUSED''"

text \<open>
  The slippage of the test suite:
  \<^verbatim>\<open>Math.abs((exec.executedPrice - quote.price) / quote.price)\<close>.
\<close>

definition slippage_of :: "real \<Rightarrow> real \<Rightarrow> real" where
  "slippage_of quoted executed = \<bar>(executed - quoted) / quoted\<bar>"

text \<open>The success path of the state machine, as the labels a subscriber sees.\<close>

definition lifecycle :: "(status \<times> bool) list" where
  "lifecycle = [(Pending, False), (Routing, False), (Routing, True), (Building, False),
                (Submitted, False), (Confirmed, False)]"

section \<open>The queue worker (\<^verbatim>\<open>worker.js\<close>)\<close>

text \<open>
  The digits of \<^verbatim>\<open>Number.prototype.toString\<close> and of \<^verbatim>\<open>Buffer.toString('hex')\<close>;
  only indices below 16 are ever read.
\<close>

definition digit :: "nat \<Rightarrow> char" where
  "digit n = ''0123456789abcdef'' ! n"

text \<open>The decimal rendering of \<^verbatim>\<open>Date.now()\<close> inside the template string.\<close>

function decimal :: "nat \<Rightarrow> string" where
  "decimal n = (if n < 10 then [digit n] else decimal (n div 10) @ [digit (n mod 10)])"
  by pat_completeness auto
termination
  by (relation "measure (\<lambda>n. n)") auto

declare decimal.simps [simp del]

definition hex_byte :: "8 word \<Rightarrow> string" where
  "hex_byte b = [digit (unat b div 16), digit (unat b mod 16)]"

definition toHex :: "8 word list \<Rightarrow> string" where
  "toHex bs = concat (map hex_byte bs)"

text \<open>
  \<^verbatim>\<open>executeSwap\<close> of the worker:
  \<^verbatim>\<open>txHash = `${Date.now()}-${crypto.randomBytes(4).toString('hex')}`\<close>. The clock
  reading \<open>now\<close> (milliseconds) and the random bytes are arguments.
\<close>

definition worker_executeSwap ::
    "dex \<Rightarrow> order_request \<Rightarrow> nat \<Rightarrow> 8 word list \<Rightarrow> real \<Rightarrow> swap_result" where
  "worker_executeSwap d ord now bytes u =
     \<lparr>txHash = decimal now @ ''-'' @ toHex bytes,
      executedPrice =
        basePrice * (if d = Raydium then 1.0 else 0.995) * (1 + (u - 0.5) * 0.01)\<rparr>"

text \<open>
  \<^verbatim>\<open>emitStatus\<close> of the worker: the cache write and the database write each sit in
  their own \<^verbatim>\<open>try/catch\<close>, which logs a warning and goes on. The arguments are the
  outcomes of the two writes; the result is the warnings logged and how the call ends.
\<close>

definition emitStatus :: "js_error option \<Rightarrow> js_error option \<Rightarrow> string list \<times> (js_error + unit)" where
  "emitStatus cacheOut dbOut =
     (let w1 = (case cacheOut of
                  Some err \<Rightarrow> [''Redis cache error: '' @ message err] | None \<Rightarrow> []);
          w2 = (case dbOut of
                  Some err \<Rightarrow> [''Database save skipped (unreachable): '' @ message err]
                | None \<Rightarrow> [])
      in (w1 @ w2, Inr ()))"

section \<open>The submit endpoint (\<^verbatim>\<open>POST /api/orders/execute\<close>)\<close>

text \<open>A parsed JSON value; an object is its table of properties.\<close>

datatype json =
  JNull | JBool bool | JNum real | JStr string | JArr "json list" | JObj "(string \<times> json) list"

text \<open>JavaScript truthiness of a JSON value.\<close>

fun truthy :: "json \<Rightarrow> bool" where
  "truthy JNull = False"
| "truthy (JBool b) = b"
| "truthy (JNum x) = (x \<noteq> 0)"
| "truthy (JStr s) = (s \<noteq> [])"
| "truthy (JArr xs) = True"
| "truthy (JObj kvs) = True"

text \<open>
  Reading a property: \<open>None\<close> is \<^verbatim>\<open>undefined\<close>. Strings, numbers, booleans and
  arrays have none of the four properties the handler reads.
\<close>

fun getProp :: "json \<Rightarrow> string \<Rightarrow> json option" where
  "getProp (JObj kvs) k = map_of kvs k"
| "getProp _ k = None"

definition falsy :: "json option \<Rightarrow> bool" where
  "falsy v = (case v of None \<Rightarrow> True | Some j \<Rightarrow> \<not> truthy j)"

text \<open>
  The guard of the handler,
  \<^verbatim>\<open>!body || body.type !== 'market' || !body.tokenIn || !body.tokenOut || !body.amountIn\<close>;
  a request without a body has \<^verbatim>\<open>body\<close> undefined.
\<close>

definition invalid_order :: "json option \<Rightarrow> bool" where
  "invalid_order body =
     (case body of
        None \<Rightarrow> True
      | Some b \<Rightarrow>
          \<not> truthy b \<or> getProp b ''type'' \<noteq> Some (JStr ''market'')
          \<or> falsy (getProp b ''tokenIn'') \<or> falsy (getProp b ''tokenOut'')
          \<or> falsy (getProp b ''amountIn''))"

datatype reply = Status400 string | Status200 string string | Status500 js_error

text \<open>
  What one request draws from its surroundings: the identifier \<^verbatim>\<open>uuidv4()\<close> returns,
  the port, and the outcomes of \<^verbatim>\<open>saveOrder\<close> and \<^verbatim>\<open>addOrder\<close>.
\<close>

record submit_env =
  uuidv4 :: string
  port :: string
  saveOrder :: "js_error option"
  addOrder :: "js_error option"

text \<open>
  What the request leaves behind: the reply, the rows written and the jobs put on the
  queue. The worker runs \<^verbatim>\<open>processOrder(job.data, job.id)\<close> for the jobs of the queue
  and for nothing else, so an order with no job emits no status event.
\<close>

record submit_result =
  sent :: reply
  saved :: "(string \<times> json option \<times> string) list"
  queued :: "(string \<times> json option) list"

definition execute_post :: "submit_env \<Rightarrow> json option \<Rightarrow> submit_result" where
  "execute_post env body =
     (if invalid_order body then
        \<lparr>sent = Status400 ''invalid order. required: type=market, tokenIn, tokenOut, amountIn'',
         saved = [], queued = []\<rparr>
      else
        (let orderId = uuidv4 env in
         (case saveOrder env of
            Some e \<Rightarrow> \<lparr>sent = Status500 e, saved = [], queued = []\<rparr>
          | None \<Rightarrow>
         (case addOrder env of
            Some e \<Rightarrow>
              \<lparr>sent = Status500 e, saved = [(orderId, body, ''queued'')], queued = []\<rparr>
          | None \<Rightarrow>
         (let wsUrl = ''ws://localhost:'' @ port env @ ''/api/orders/execute?orderId='' @ orderId
          in \<lparr>sent = Status200 orderId wsUrl, saved = [(orderId, body, ''queued'')],
              queued = [(orderId, body)]\<rparr>)))))"

text \<open>The JSON body a client sends for an \<^verbatim>\<open>OrderRequest\<close>.\<close>

definition toJson :: "order_request \<Rightarrow> json" where
  "toJson r =
     JObj ([(''type'', JStr (otype r)), (''tokenIn'', JStr (tokenIn r)),
            (''tokenOut'', JStr (tokenOut r)), (''amountIn'', JNum (amountIn r))]
           @ (case slippage r of None \<Rightarrow> [] | Some s \<Rightarrow> [(''slippage'', JNum s)]))"

text \<open>A request whose persistence write and enqueue both resolve.\<close>

definition submitOk :: submit_env where
  "submitOk = \<lparr>uuidv4 = ''order-1'', port = ''3000'', saveOrder = None, addOrder = None\<rparr>"

section \<open>Evaluation and helper lemmas\<close>

lemmas engine_defs =
  processOrder_def try_block_def promise_all2_def mockDex_def withQuotes_def withSwapFailure_def
  getRaydiumQuote_def getMeteoraQuote_def executeSwap_def basePrice_def chosen_def
  reason_of_def toString_def dbOk_def dbDown_def dummyOrder_def Let_def

text \<open>Every run ends in one of seven ways.\<close>

lemma processOrder_labels:
  "(\<exists>tx. snd (processOrder c data) = Inr tx \<and> map label (fst (processOrder c data)) = lifecycle)
   \<or> (\<exists>e. snd (processOrder c data) = Inl e \<and>
        map label (fst (processOrder c data)) \<in>
          (\<lambda>n. take n lifecycle @ [(Failed, False)]) ` {1, 2, 3, 4, 5, 6})"
  by (auto simp: processOrder_def try_block_def promise_all2_def Let_def label_def lifecycle_def
           split: option.splits sum.splits prod.splits)

text \<open>
  When every persistence write resolves, the labels are decided by the quote sources and
  the execution simulator alone: a failed quote ends the run after routing, a failed swap
  after submitted, and otherwise the run goes through the success path.
\<close>

lemma processOrder_labels_when_written:
  "db c = dbOk \<Longrightarrow>
   map label (fst (processOrder c data)) =
     (case promise_all2 (meteoraFirst c)
             (raydiumQuote c (tokenIn data) (tokenOut data) (amountIn data))
             (meteoraQuote c (tokenIn data) (tokenOut data) (amountIn data)) of
        Inl e \<Rightarrow> take 2 lifecycle @ [(Failed, False)]
      | Inr (r, m) \<Rightarrow>
          (case swap c (dex (chosen r m)) data of
             Inl e \<Rightarrow> take 5 lifecycle @ [(Failed, False)]
           | Inr ex \<Rightarrow> lifecycle))"
  by (auto simp: processOrder_def try_block_def Let_def label_def lifecycle_def dbOk_def
           split: option.splits sum.splits prod.splits)

text \<open>
  What holds of the terminal events whatever the collaborators do: a failed event is the
  last event of its run, and the run rejects.
\<close>

lemma failed_is_last:
  "status_of p = Failed \<Longrightarrow> p \<in> set (fst (processOrder c data))
   \<Longrightarrow> last (fst (processOrder c data)) = p \<and> (\<exists>e. snd (processOrder c data) = Inl e)"
  by (auto simp: processOrder_def try_block_def promise_all2_def Let_def
           split: option.splits sum.splits prod.splits)

text \<open>When the write of confirmed resolves, confirmed is the last event and the run returns.\<close>

lemma confirmed_is_last_when_written:
  "db c Confirmed = None \<Longrightarrow> status_of p = Confirmed
   \<Longrightarrow> p \<in> set (fst (processOrder c data))
   \<Longrightarrow> last (fst (processOrder c data)) = p \<and> (\<exists>tx. snd (processOrder c data) = Inr tx)"
  by (auto simp: processOrder_def try_block_def promise_all2_def Let_def
           split: option.splits sum.splits prod.splits)

text \<open>When the write of failed resolves, the run rejects with the error it caught.\<close>

lemma rethrows_when_written:
  "db c Failed = None \<Longrightarrow> try_block c data = (evs, Inl err)
   \<Longrightarrow> processOrder c data = (evs @ [FailedWith (reason_of err)], Inl err)"
  by (simp add: processOrder_def)

text \<open>The reason is empty only for an error with neither a name nor a message.\<close>

lemma reason_nonempty: "message err \<noteq> [] \<or> err_name err \<noteq> [] \<Longrightarrow> reason_of err \<noteq> []"
  by (auto simp: reason_of_def toString_def)

text \<open>The worker's \<^verbatim>\<open>emitStatus\<close> resolves whatever the two writes do.\<close>

lemma emitStatus_swallows: "snd (emitStatus cacheOut dbOut) = Inr ()"
  by (simp add: emitStatus_def Let_def)

lemma digit_inj: "a < 16 \<Longrightarrow> b < 16 \<Longrightarrow> digit a = digit b \<Longrightarrow> a = b"
proof -
  assume a: "a < 16" and b: "b < 16" and e: "digit a = digit b"
  have d: "distinct ''0123456789abcdef''" by simp
  have l: "length ''0123456789abcdef'' = 16" by simp
  from a b e d l show "a = b"
    unfolding digit_def by (metis nth_eq_iff_index_eq)
qed

lemma digit_not_dash: "n < 16 \<Longrightarrow> digit n \<noteq> CHR ''-''"
proof -
  assume "n < 16"
  then have "digit n \<in> set ''0123456789abcdef''"
    unfolding digit_def by (intro nth_mem) simp
  then show ?thesis by auto
qed

lemma decimal_small: "n < 10 \<Longrightarrow> decimal n = [digit n]"
  by (subst decimal.simps) simp

lemma decimal_large: "\<not> n < 10 \<Longrightarrow> decimal n = decimal (n div 10) @ [digit (n mod 10)]"
  by (subst decimal.simps) simp

lemma decimal_no_dash: "CHR ''-'' \<notin> set (decimal n)"
proof (induction n rule: decimal.induct)
  case (1 n)
  show ?case
  proof (cases "n < 10")
    case True
    then show ?thesis using digit_not_dash [of n] by (simp add: decimal_small)
  next
    case False
    have "n mod 10 < 16" by simp
    then have "digit (n mod 10) \<noteq> CHR ''-''" by (rule digit_not_dash)
    with False 1 show ?thesis by (simp add: decimal_large)
  qed
qed

lemma decimal_nonempty: "decimal n \<noteq> []"
  by (cases "n < 10") (simp_all add: decimal_small decimal_large)

text \<open>Two clock readings with the same rendering are the same reading.\<close>

lemma decimal_inj: "decimal a = decimal b \<Longrightarrow> a = b"
proof (induction a arbitrary: b rule: decimal.induct)
  case (1 n)
  show ?case
  proof (cases "n < 10")
    case True
    note n = this
    show ?thesis
    proof (cases "b < 10")
      case True
      with n 1(2) have "digit n = digit b" by (simp add: decimal_small)
      with n True show ?thesis using digit_inj [of n b] by simp
    next
      case False
      with n 1(2) have "[digit n] = decimal (b div 10) @ [digit (b mod 10)]"
        by (simp add: decimal_small decimal_large)
      then show ?thesis using decimal_nonempty [of "b div 10"] by simp
    qed
  next
    case False
    note n = this
    show ?thesis
    proof (cases "b < 10")
      case True
      with n 1(2) have "decimal (n div 10) @ [digit (n mod 10)] = [digit b]"
        by (simp add: decimal_small decimal_large)
      then show ?thesis using decimal_nonempty [of "n div 10"] by simp
    next
      case False
      with n 1(2) have "decimal (n div 10) @ [digit (n mod 10)]
                        = decimal (b div 10) @ [digit (b mod 10)]"
        by (simp add: decimal_large)
      then have "decimal (n div 10) = decimal (b div 10)"
        and d: "digit (n mod 10) = digit (b mod 10)"
        by simp_all
      with 1(1) [OF n] have q: "n div 10 = b div 10" by simp
      have "n mod 10 < 16" "b mod 10 < 16" by simp_all
      with d have r: "n mod 10 = b mod 10" using digit_inj by blast
      from q r show ?thesis by (metis div_mult_mod_eq)
    qed
  qed
qed

lemma hex_byte_inj: "hex_byte a = hex_byte b \<Longrightarrow> a = b"
proof -
  assume e: "hex_byte a = hex_byte b"
  have la: "unat a < 256" using unsigned_less [of a] by simp
  have lb: "unat b < 256" using unsigned_less [of b] by simp
  from la have a1: "unat a div 16 < 16" and a2: "unat a mod 16 < 16" by simp_all
  from lb have b1: "unat b div 16 < 16" and b2: "unat b mod 16 < 16" by simp_all
  from e have "digit (unat a div 16) = digit (unat b div 16)"
    and "digit (unat a mod 16) = digit (unat b mod 16)"
    by (simp_all add: hex_byte_def)
  with a1 a2 b1 b2 have "unat a div 16 = unat b div 16" and "unat a mod 16 = unat b mod 16"
    using digit_inj by blast+
  then have "unat a = unat b" by (metis div_mult_mod_eq)
  then show "a = b" by (simp add: word_unat_eq_iff)
qed

lemma toHex_inj: "toHex xs = toHex ys \<Longrightarrow> xs = ys"
proof (induction xs arbitrary: ys)
  case Nil
  then show ?case by (cases ys) (simp_all add: toHex_def hex_byte_def)
next
  case (Cons x xs)
  show ?case
  proof (cases ys)
    case Nil
    with Cons.prems show ?thesis by (simp add: toHex_def hex_byte_def)
  next
    case (Cons y ys')
    with Cons.prems have "hex_byte x @ toHex xs = hex_byte y @ toHex ys'"
      by (simp add: toHex_def)
    then have "hex_byte x = hex_byte y" and "toHex xs = toHex ys'"
      by (simp_all add: hex_byte_def)
    with Cons.IH Cons show ?thesis using hex_byte_inj by blast
  qed
qed

text \<open>A separator that occurs in neither left part splits both strings alike.\<close>

lemma split_at_separator:
  "c \<notin> set a \<Longrightarrow> c \<notin> set b \<Longrightarrow> a @ c # x = b @ c # y \<Longrightarrow> a = b \<and> x = y"
proof (induction a arbitrary: b)
  case Nil
  then show ?case by (cases b) auto
next
  case (Cons h t)
  then show ?case by (cases b) auto
qed

lemma decimal_now: "decimal 1700000000000 = ''1700000000000''"
  by (simp add: decimal_small decimal_large digit_def)

lemma toHex_bytes: "toHex [0xde, 0xad, 0xbe, 0xef] = ''deadbeef''"
  by (simp add: toHex_def hex_byte_def digit_def)

section \<open>The lifecycle\<close>

text \<open>
  C1. The sequence of the success path is not kept when a persistence write rejects. With
  the router of the repository (raydium quotes 99, meteora 100.75, the swap resolves) and
  a database that rejects only the write of confirmed, the run emits all six events of
  the success path and then failed: seven events, which are neither the six nor a part of
  them followed by failed. When only the write of pending rejects, the same quotes and
  the same swap give pending and failed and nothing else, although routing and execution
  would both succeed. With every write resolving the labels are the six of the success
  path.
\<close>

theorem processOrder_sequence_broken_by_write:
  "processOrder (mockDex (1/4) (3/4) ''tx-9'' (1/2) (dbOk(Confirmed \<mapsto> dbDown))) dummyOrder
     = ([StatusOnly Pending, StatusOnly Routing, RoutingChosen Raydium 99,
         StatusOnly Building, StatusOnly Submitted, ConfirmedWith ''tx-9'' 100,
         FailedWith ''connect ECONNREFUSED''], Inl dbDown)
   \<and> map label (fst (processOrder
         (mockDex (1/4) (3/4) ''tx-9'' (1/2) (dbOk(Confirmed \<mapsto> dbDown))) dummyOrder))
       = lifecycle @ [(Failed, False)]
   \<and> map label (fst (processOrder
         (mockDex (1/4) (3/4) ''tx-9'' (1/2) (dbOk(Pending \<mapsto> dbDown))) dummyOrder))
       = [(Pending, False), (Failed, False)]
   \<and> map label (fst (processOrder (mockDex (1/4) (3/4) ''tx-9'' (1/2) dbOk) dummyOrder))
       = lifecycle"
  by (simp add: engine_defs label_def lifecycle_def)

section \<open>Routing\<close>

text \<open>
  C2. Of the two quotes the router takes the one with the lower price; on equal prices it
  takes the first-listed source (raydium), so the choice is a function of the pair. When
  the sources return \<open>r\<close> and \<open>m\<close>, the third event of the engine is the routing
  event with the tag and the price of that quote: with one source at 120 and the other at
  100 it carries the tag of the source quoting 100.
\<close>

theorem chosen_lower_price:
  "price (chosen r m) = min (price r) (price m)
   \<and> (chosen r m = r \<or> chosen r m = m)
   \<and> chosen r (m\<lparr>price := price r\<rparr>) = r
   \<and> (raydiumQuote c (tokenIn data) (tokenOut data) (amountIn data) = Inr r
        \<and> meteoraQuote c (tokenIn data) (tokenOut data) (amountIn data) = Inr m
        \<and> db c Pending = None
      \<longrightarrow> take 3 (fst (processOrder c data))
          = [StatusOnly Pending, StatusOnly Routing,
             RoutingChosen (dex (chosen r m)) (price (chosen r m))])"
  by (auto simp: chosen_def processOrder_def try_block_def promise_all2_def Let_def
           split: option.splits sum.splits prod.splits)

theorem chosen_lower_price_witness:
  "db (withQuotes \<lparr>price = 120, fee = 0.003, dex = Raydium\<rparr>
                  \<lparr>price = 100, fee = 0.002, dex = Meteora\<rparr>
                  (mockDex 0 0 ''tx'' 0 dbOk)) Pending = None
   \<and> take 3 (fst (processOrder
         (withQuotes \<lparr>price = 120, fee = 0.003, dex = Raydium\<rparr>
                     \<lparr>price = 100, fee = 0.002, dex = Meteora\<rparr>
                     (mockDex 0 0 ''tx'' 0 dbOk)) dummyOrder))
       = [StatusOnly Pending, StatusOnly Routing, RoutingChosen Meteora 100]
   \<and> take 3 (fst (processOrder
         (withQuotes \<lparr>price = 100, fee = 0.003, dex = Raydium\<rparr>
                     \<lparr>price = 120, fee = 0.002, dex = Meteora\<rparr>
                     (mockDex 0 0 ''tx'' 0 dbOk)) dummyOrder))
       = [StatusOnly Pending, StatusOnly Routing, RoutingChosen Raydium 100]"
  using chosen_lower_price
          [of "\<lparr>price = 120, fee = 0.003, dex = Raydium\<rparr>"
              "\<lparr>price = 100, fee = 0.002, dex = Meteora\<rparr>"
              "withQuotes \<lparr>price = 120, fee = 0.003, dex = Raydium\<rparr>
                          \<lparr>price = 100, fee = 0.002, dex = Meteora\<rparr>
                          (mockDex 0 0 ''tx'' 0 dbOk)" dummyOrder]
        chosen_lower_price
          [of "\<lparr>price = 100, fee = 0.003, dex = Raydium\<rparr>"
              "\<lparr>price = 120, fee = 0.002, dex = Meteora\<rparr>"
              "withQuotes \<lparr>price = 100, fee = 0.003, dex = Raydium\<rparr>
                          \<lparr>price = 120, fee = 0.002, dex = Meteora\<rparr>
                          (mockDex 0 0 ''tx'' 0 dbOk)" dummyOrder]
  by (simp add: withQuotes_def mockDex_def dbOk_def chosen_def)

text \<open>
  C10. Quotes and the executed price do not depend on the order. With the same draw, each
  quote source returns the same quote for any token pair and amount, and the executed
  price is the same for any order and any identifier: it is the base price times the
  factor of the source tag times the noise of the draw. The chosen quote is not an
  argument of \<^verbatim>\<open>executeSwap\<close>.
\<close>

theorem router_ignores_order:
  "getRaydiumQuote tokIn tokOut amount u = getRaydiumQuote tokIn' tokOut' amount' u
   \<and> getMeteoraQuote tokIn tokOut amount u = getMeteoraQuote tokIn' tokOut' amount' u
   \<and> executedPrice (executeSwap d ord uuid u) = executedPrice (executeSwap d ord' uuid' u)
   \<and> executedPrice (executeSwap Raydium ord uuid u) = 100 * (1 + (u - 1/2) / 100)
   \<and> executedPrice (executeSwap Meteora ord uuid u) = 99.5 * (1 + (u - 1/2) / 100)"
  by (simp add: getRaydiumQuote_def getMeteoraQuote_def executeSwap_def basePrice_def)


section \<open>Submission\<close>

text \<open>
  C3, as the handler has it. A body that fails the guard is answered 400 with nothing
  written and nothing queued, whatever the collaborators do. When the persistence write
  and the enqueue resolve, the order is put on the queue, and so reaches the lifecycle
  engine, exactly when the body passes the guard. The body of an \<^verbatim>\<open>OrderRequest\<close>
  fails the guard exactly when its type is not "market", a token is the empty string or
  \<open>amountIn\<close> is 0: the guard tests \<open>amountIn\<close> for truthiness, not for its sign.
  A body that lacks one of the four properties fails the guard. Nothing is said here of
  a request whose persistence write or enqueue rejects.
\<close>

theorem execute_post_guard:
  "(saveOrder env = None \<and> addOrder env = None \<longrightarrow>
      queued (execute_post env body)
        = (if invalid_order body then [] else [(uuidv4 env, body)]))
   \<and> (invalid_order body \<longrightarrow>
        execute_post env body =
          \<lparr>sent = Status400 ''invalid order. required: type=market, tokenIn, tokenOut, amountIn'',
           saved = [], queued = []\<rparr>)
   \<and> (invalid_order (Some (toJson r))
      \<longleftrightarrow> otype r \<noteq> ''market'' \<or> tokenIn r = [] \<or> tokenOut r = [] \<or> amountIn r = 0)
   \<and> (map_of kvs ''type'' = None \<or> map_of kvs ''tokenIn'' = None
        \<or> map_of kvs ''tokenOut'' = None \<or> map_of kvs ''amountIn'' = None
      \<longrightarrow> invalid_order (Some (JObj kvs)))"
proof (intro conjI)
  show "saveOrder env = None \<and> addOrder env = None \<longrightarrow>
      queued (execute_post env body)
        = (if invalid_order body then [] else [(uuidv4 env, body)])"
    by (simp add: execute_post_def Let_def)
  show "invalid_order body \<longrightarrow>
        execute_post env body =
          \<lparr>sent = Status400 ''invalid order. required: type=market, tokenIn, tokenOut, amountIn'',
           saved = [], queued = []\<rparr>"
    by (simp add: execute_post_def)
  show "invalid_order (Some (toJson r))
      \<longleftrightarrow> otype r \<noteq> ''market'' \<or> tokenIn r = [] \<or> tokenOut r = [] \<or> amountIn r = 0"
    by (simp add: invalid_order_def falsy_def toJson_def)
  show "map_of kvs ''type'' = None \<or> map_of kvs ''tokenIn'' = None
        \<or> map_of kvs ''tokenOut'' = None \<or> map_of kvs ''amountIn'' = None
      \<longrightarrow> invalid_order (Some (JObj kvs))"
    by (auto simp: invalid_order_def falsy_def)
qed

theorem execute_post_guard_witness:
  "saveOrder submitOk = None \<and> addOrder submitOk = None
   \<and> \<not> invalid_order (Some (toJson dummyOrder))
   \<and> queued (execute_post submitOk (Some (toJson dummyOrder)))
       = [(''order-1'', Some (toJson dummyOrder))]
   \<and> invalid_order (Some (toJson (dummyOrder\<lparr>otype := ''limit''\<rparr>)))
   \<and> execute_post submitOk (Some (toJson (dummyOrder\<lparr>otype := ''limit''\<rparr>))) =
          \<lparr>sent = Status400 ''invalid order. required: type=market, tokenIn, tokenOut, amountIn'',
           saved = [], queued = []\<rparr>
   \<and> invalid_order (Some (JObj [(''type'', JStr ''market''), (''tokenIn'', JStr ''SOL''),
                                 (''tokenOut'', JStr ''USDC'')]))"
  using execute_post_guard [of submitOk "Some (toJson dummyOrder)" dummyOrder "[]"]
        execute_post_guard [of submitOk "Some (toJson (dummyOrder\<lparr>otype := ''limit''\<rparr>))"
                               "dummyOrder\<lparr>otype := ''limit''\<rparr>"
                               "[(''type'', JStr ''market''), (''tokenIn'', JStr ''SOL''),
                                 (''tokenOut'', JStr ''USDC'')]"]
  by (simp add: submitOk_def dummyOrder_def)

text \<open>A market order with \<open>amountIn = -5\<close> is not positive, and it is queued.\<close>

theorem execute_post_accepts_negative_amount:
  "\<not> (0 < amountIn (dummyOrder\<lparr>amountIn := - 5\<rparr>))
   \<and> queued (execute_post submitOk (Some (toJson (dummyOrder\<lparr>amountIn := - 5\<rparr>))))
       = [(''order-1'', Some (toJson (dummyOrder\<lparr>amountIn := - 5\<rparr>)))]"
  by (simp add: execute_post_def invalid_order_def falsy_def toJson_def submitOk_def dummyOrder_def
        Let_def)

section \<open>Persistence in the control flow of the engine\<close>

text \<open>
  C4. In the engine every \<^verbatim>\<open>await updateOrderStatus(...)\<close> stands unguarded inside the
  \<^verbatim>\<open>try\<close> block, so a write that rejects is not swallowed. With the router of the
  repository and a database that cannot be reached for the write of pending, the run
  emits pending, then failed with the driver's message, and rejects with the driver's
  error; the same run with every write resolving emits the six events of the success
  path and returns the identifier.
\<close>

theorem processOrder_persistence_failure_aborts:
  "processOrder (mockDex (1/2) (1/2) ''tx-1'' (1/2) (dbOk(Pending \<mapsto> dbDown))) dummyOrder
     = ([StatusOnly Pending, FailedWith ''connect ECONNREFUSED''], Inl dbDown)
   \<and> processOrder (mockDex (1/2) (1/2) ''tx-1'' (1/2) dbOk) dummyOrder
     = ([StatusOnly Pending, StatusOnly Routing, RoutingChosen Meteora 99.5,
         StatusOnly Building, StatusOnly Submitted, ConfirmedWith ''tx-1'' 99.5],
        Inr ''tx-1'')"
  by (simp add: engine_defs)

text \<open>
  C5. Confirmed is not the last event when the write of confirmed rejects: the run has
  emitted confirmed, the rejection enters the \<^verbatim>\<open>catch\<close> block, and failed is emitted
  after it. The order receives both events.
\<close>

theorem processOrder_failed_after_confirmed:
  "processOrder (mockDex (1/2) (1/2) ''tx-1'' (1/2) (dbOk(Confirmed \<mapsto> dbDown))) dummyOrder
     = ([StatusOnly Pending, StatusOnly Routing, RoutingChosen Meteora 99.5,
         StatusOnly Building, StatusOnly Submitted, ConfirmedWith ''tx-1'' 99.5,
         FailedWith ''connect ECONNREFUSED''], Inl dbDown)"
  by (simp add: engine_defs)

text \<open>
  C6. With the quotes and the execution failure of end-to-end scenario C, and a database
  that rejects the write of failed, the failed event carries "swap failed" but the caller
  observes the driver's error, not the swap failure: the \<^verbatim>\<open>await\<close> in the
  \<^verbatim>\<open>catch\<close> block throws before \<^verbatim>\<open>throw err\<close> is reached. And the run whose write
  of confirmed rejects has emitted confirmed and does not return.
\<close>

theorem processOrder_rejects_with_other_error:
  "processOrder
     (withSwapFailure (JsError ''Error'' ''swap failed'')
        (withQuotes \<lparr>price = 100, fee = 0.003, dex = Raydium\<rparr>
                    \<lparr>price = 101, fee = 0.002, dex = Meteora\<rparr>
                    (mockDex 0 0 ''tx-1'' 0 (dbOk(Failed \<mapsto> dbDown))))) dummyOrder
     = ([StatusOnly Pending, StatusOnly Routing, RoutingChosen Raydium 100,
         StatusOnly Building, StatusOnly Submitted, FailedWith ''swap failed''],
        Inl dbDown)
   \<and> dbDown \<noteq> JsError ''Error'' ''swap failed''
   \<and> ConfirmedWith ''tx-1'' 99.5
       \<in> set (fst (processOrder
                     (mockDex (1/2) (1/2) ''tx-1'' (1/2) (dbOk(Confirmed \<mapsto> dbDown))) dummyOrder))
   \<and> snd (processOrder
            (mockDex (1/2) (1/2) ''tx-1'' (1/2) (dbOk(Confirmed \<mapsto> dbDown))) dummyOrder)
       = Inl dbDown"
  by (simp add: engine_defs)

section \<open>Settlement identifiers and prices\<close>

text \<open>
  The identifier of the worker is the clock reading, a dash and the hexadecimal rendering
  of the random bytes, and the rendering loses nothing: two calls return the same
  identifier exactly when they read the same millisecond and draw the same bytes.
\<close>

lemma worker_txHash_equal_iff:
  "txHash (worker_executeSwap d1 o1 t1 b1 u1) = txHash (worker_executeSwap d2 o2 t2 b2 u2)
     \<longleftrightarrow> t1 = t2 \<and> b1 = b2"
proof -
  have "decimal t1 @ CHR ''-'' # toHex b1 = decimal t2 @ CHR ''-'' # toHex b2
        \<Longrightarrow> t1 = t2 \<and> b1 = b2"
    using split_at_separator [OF decimal_no_dash decimal_no_dash] decimal_inj toHex_inj
    by blast
  then show ?thesis
    by (auto simp: worker_executeSwap_def)
qed

text \<open>
  C7. The identifiers of the worker are not unique. Two calls of its \<^verbatim>\<open>executeSwap\<close>,
  for different orders and different sources, that read the same millisecond and draw
  the same four random bytes return the same settlement identifier.
\<close>

theorem txHash_collision:
  "txHash (worker_executeSwap Raydium dummyOrder 1700000000000 [0xde, 0xad, 0xbe, 0xef] (1/2))
     = ''1700000000000-deadbeef''
   \<and> txHash (worker_executeSwap Meteora (dummyOrder\<lparr>amountIn := 50\<rparr>) 1700000000000
               [0xde, 0xad, 0xbe, 0xef] (1/4))
     = ''1700000000000-deadbeef''"
  by (simp add: worker_executeSwap_def decimal_now toHex_bytes)

text \<open>
  C8. The executed price is drawn around the base price and never reads the quote, so it
  is not bound to the chosen quote. With the draws 1/10 for the raydium quote, 1/2 for the
  meteora quote and 1/2 for the execution, the order is confirmed, the chosen quote is
  raydium at 98.4, the executed price is 100, and the slippage is above 1.6 per cent.
\<close>

theorem processOrder_slippage_exceeds_bound:
  "processOrder (mockDex (1/10) (1/2) ''tx-1'' (1/2) dbOk) dummyOrder
     = ([StatusOnly Pending, StatusOnly Routing, RoutingChosen Raydium 98.4,
         StatusOnly Building, StatusOnly Submitted, ConfirmedWith ''tx-1'' 100],
        Inr ''tx-1'')
   \<and> slippage_of 98.4 100 > 0.016"
  by (simp add: engine_defs slippage_of_def)

end
